theory Spec2Isabelle
  imports Main "HOL-Library.Word" "HOL-Library.Char_ord" "HOL-Library.List_Lexorder"
begin

unbundle bit_operations_syntax

section \<open>Common types\<close>

type_synonym byte = "8 word"
type_synonym path = string

text \<open>
  The system calls the level makes. A value of this type names the call in an error and
  in the fault table of the file system model below.
\<close>

datatype sysop = OpMkdirAll | OpOpenFile | OpOpen | OpInfo | OpWrite | OpReadAt | OpSync
  | OpClose | OpLink | OpLstat | OpReadDir | OpRemoveAll

text \<open>
  Go errors as values. \<open>ErrSys\<close> is an error returned by the operating system,
  \<open>ErrLib\<close> an error returned by the columnar codec or by the compaction function; the
  other constructors are the errors the source builds with \<open>fmt.Errorf\<close>, in the order
  they appear there.
\<close>

datatype error =
    ErrSys sysop path
  | ErrLib string
  | ErrNoParts
  | ErrWriteSize "error option"
  | ErrSyncFile error
  | ErrOpenAfterCompaction error
  | ErrFileInfo error
  | ErrOpenFile error
  | ErrReadSize "error option"

section \<open>Predicate pruning (package expr)\<close>

subsection \<open>Values of the columnar library\<close>

text \<open>
  \<open>parquet.Value\<close> belongs to the columnar library, not to this repository. The model
  keeps what the pruning code can observe of it: the physical kind (absent for the null
  value, whose \<open>Kind()\<close> is none of the eight kinds), the 64-bit payload word that holds
  booleans, integers and the bit patterns of floats, and the bytes of a byte array. The
  null value is the zero value of the library's struct: no kind, payload 0, no bytes.
\<close>

datatype Kind = Boolean | Int32 | Int64 | Int96 | Float | Double | ByteArray | FixedLenByteArray

record Value =
  vkind :: "Kind option"
  vu64 :: "64 word"
  vbytes :: "byte list"

definition NullValue :: Value where
  "NullValue = \<lparr>vkind = None, vu64 = 0, vbytes = []\<rparr>"

definition Int64Value :: "64 word \<Rightarrow> Value" where
  "Int64Value w = \<lparr>vkind = Some Int64, vu64 = w, vbytes = []\<rparr>"

definition ByteArrayValue :: "byte list \<Rightarrow> Value" where
  "ByteArrayValue bs = \<lparr>vkind = Some ByteArray, vu64 = word_of_nat (length bs), vbytes = bs\<rparr>"

definition IsNull :: "Value \<Rightarrow> bool" where
  "IsNull v = (vkind v = None)"

text \<open>
  The typed comparisons of the library (\<open>parquet.Int64Type.Compare\<close> and its siblings)
  read the payload of both operands as the type at hand, whatever the kind of the operand:
  a null operand is read as 0, as \<open>false\<close>, or as the empty byte string. Floats are
  compared as IEEE 754 does it: a NaN is neither below nor above anything, and the two
  zeros are equal; on the bit patterns that is the order of the sign-magnitude integers.
\<close>

definition cmp3 :: "bool \<Rightarrow> bool \<Rightarrow> int" where
  "cmp3 lt gt = (if lt then - 1 else if gt then 1 else 0)"

definition compareInt32 :: "Value \<Rightarrow> Value \<Rightarrow> int" where
  "compareInt32 a b =
     (let x = sint (ucast (vu64 a) :: 32 word); y = sint (ucast (vu64 b) :: 32 word)
      in cmp3 (x < y) (y < x))"

definition compareInt64 :: "Value \<Rightarrow> Value \<Rightarrow> int" where
  "compareInt64 a b = (let x = sint (vu64 a); y = sint (vu64 b) in cmp3 (x < y) (y < x))"

definition compareBool :: "Value \<Rightarrow> Value \<Rightarrow> int" where
  "compareBool a b = (let x = (vu64 a \<noteq> 0); y = (vu64 b \<noteq> 0) in cmp3 (\<not> x \<and> y) (x \<and> \<not> y))"

definition isNaN32 :: "32 word \<Rightarrow> bool" where
  "isNaN32 w = (w AND 0x7F800000 = 0x7F800000 \<and> w AND 0x007FFFFF \<noteq> 0)"

definition key32 :: "32 word \<Rightarrow> int" where
  "key32 w = (if bit w 31 then - uint (w AND 0x7FFFFFFF) else uint (w AND 0x7FFFFFFF))"

definition lessFloat32 :: "32 word \<Rightarrow> 32 word \<Rightarrow> bool" where
  "lessFloat32 x y = (\<not> isNaN32 x \<and> \<not> isNaN32 y \<and> key32 x < key32 y)"

definition compareFloat32 :: "Value \<Rightarrow> Value \<Rightarrow> int" where
  "compareFloat32 a b =
     (let x = (ucast (vu64 a) :: 32 word); y = (ucast (vu64 b) :: 32 word)
      in cmp3 (lessFloat32 x y) (lessFloat32 y x))"

definition isNaN64 :: "64 word \<Rightarrow> bool" where
  "isNaN64 w = (w AND 0x7FF0000000000000 = 0x7FF0000000000000 \<and> w AND 0x000FFFFFFFFFFFFF \<noteq> 0)"

definition key64 :: "64 word \<Rightarrow> int" where
  "key64 w = (if bit w 63 then - uint (w AND 0x7FFFFFFFFFFFFFFF) else uint (w AND 0x7FFFFFFFFFFFFFFF))"

definition lessFloat64 :: "64 word \<Rightarrow> 64 word \<Rightarrow> bool" where
  "lessFloat64 x y = (\<not> isNaN64 x \<and> \<not> isNaN64 y \<and> key64 x < key64 y)"

definition compareFloat64 :: "Value \<Rightarrow> Value \<Rightarrow> int" where
  "compareFloat64 a b = cmp3 (lessFloat64 (vu64 a) (vu64 b)) (lessFloat64 (vu64 b) (vu64 a))"

fun bytesCompare :: "byte list \<Rightarrow> byte list \<Rightarrow> int" where
  "bytesCompare [] [] = 0"
| "bytesCompare [] (y # ys) = - 1"
| "bytesCompare (x # xs) [] = 1"
| "bytesCompare (x # xs) (y # ys) =
     (if x < y then - 1 else if y < x then 1 else bytesCompare xs ys)"

definition compareByteArray :: "Value \<Rightarrow> Value \<Rightarrow> int" where
  "compareByteArray a b = bytesCompare (vbytes a) (vbytes b)"

subsection \<open>compare\<close>

text \<open>
  \<open>compare\<close> of the source dispatches on the kind of its first operand and panics on
  any other kind (\<open>Int96\<close>, or a null first operand). A panic is \<open>None\<close>.
\<close>

definition compare :: "Value \<Rightarrow> Value \<Rightarrow> int option" where
  "compare v1 v2 =
     (case vkind v1 of
        Some Int32 \<Rightarrow> Some (compareInt32 v1 v2)
      | Some Int64 \<Rightarrow> Some (compareInt64 v1 v2)
      | Some Float \<Rightarrow> Some (compareFloat32 v1 v2)
      | Some Double \<Rightarrow> Some (compareFloat64 v1 v2)
      | Some ByteArray \<Rightarrow> Some (compareByteArray v1 v2)
      | Some FixedLenByteArray \<Rightarrow> Some (compareByteArray v1 v2)
      | Some Boolean \<Rightarrow> Some (compareBool v1 v2)
      | _ \<Rightarrow> None)"

subsection \<open>Column index and column chunk\<close>

text \<open>
  The column index of a chunk: one entry of statistics per page. \<open>MinValue(i)\<close> and
  \<open>MaxValue(i)\<close> are the null value for a page that holds nulls only. The chunk gives
  its column index (or an error), its number of values and its bloom filter, if it has
  one; the filter's \<open>Check\<close> answers or fails.
\<close>

record PageStats =
  MinValue :: Value
  MaxValue :: Value
  NullCountPage :: "64 word"

type_synonym ColumnIndex = "PageStats list"

record ColumnChunk =
  ColumnIndex :: "error + ColumnIndex"
  NumValues :: "64 word"
  BloomFilter :: "(Value \<Rightarrow> error + bool) option"

text \<open>The operators of \<open>logicalplan.Op\<close>; \<open>OpOther\<close> stands for every member of the
  enumeration that the pruning code does not name.\<close>

datatype Op = OpEq | OpNotEq | OpLt | OpLtEq | OpGt | OpGtEq | OpOther

subsection \<open>Min, Max, NullCount\<close>

text \<open>
  The loop of \<open>Min\<close> from page 1 on, with the running minimum: a null running minimum is
  replaced by the page's value; otherwise the page's value replaces it when \<open>compare\<close>
  returns 1. \<open>MinValue(0)\<close> on an index of no pages indexes out of range: a panic.
\<close>

fun Min_loop :: "Value \<Rightarrow> Value list \<Rightarrow> Value option" where
  "Min_loop minV [] = Some minV"
| "Min_loop minV (v # vs) =
     (if IsNull minV then Min_loop v vs
      else (case compare minV v of
              None \<Rightarrow> None
            | Some c \<Rightarrow> Min_loop (if c = 1 then v else minV) vs))"

definition Min_pq :: "ColumnIndex \<Rightarrow> Value option" where
  "Min_pq columnIndex =
     (case columnIndex of
        [] \<Rightarrow> None
      | p # ps \<Rightarrow> Min_loop (MinValue p) (map MinValue ps))"

fun Max_loop :: "Value \<Rightarrow> Value list \<Rightarrow> Value option" where
  "Max_loop maxValue [] = Some maxValue"
| "Max_loop maxValue (v # vs) =
     (if IsNull maxValue then Max_loop v vs
      else (case compare maxValue v of
              None \<Rightarrow> None
            | Some c \<Rightarrow> Max_loop (if c = - 1 then v else maxValue) vs))"

definition Max_pq :: "ColumnIndex \<Rightarrow> Value option" where
  "Max_pq columnIndex =
     (case columnIndex of
        [] \<Rightarrow> None
      | p # ps \<Rightarrow> Max_loop (MaxValue p) (map MaxValue ps))"

fun NullCount_loop :: "64 word \<Rightarrow> PageStats list \<Rightarrow> 64 word" where
  "NullCount_loop numNulls [] = numNulls"
| "NullCount_loop numNulls (p # ps) = NullCount_loop (numNulls + NullCountPage p) ps"

definition NullCount :: "ColumnIndex \<Rightarrow> 64 word" where
  "NullCount columnIndex = NullCount_loop 0 columnIndex"

subsection \<open>BinaryScalarOperation\<close>

text \<open>
  The result is Go's pair of the boolean and the error (\<open>None\<close> for \<open>nil\<close>); the outer
  \<open>option\<close> is \<open>None\<close> when the call panics. The conjunction of the equality branch is
  evaluated left to right and stops at a false left conjunct, as Go's \<open>&&\<close> does.
\<close>

definition eqMinMax :: "ColumnIndex \<Rightarrow> Value \<Rightarrow> bool option" where
  "eqMinMax leftColumnIndex right =
     (case Max_pq leftColumnIndex of
        None \<Rightarrow> None
      | Some mx \<Rightarrow>
          (case compare right mx of
             None \<Rightarrow> None
           | Some c1 \<Rightarrow>
               if c1 \<le> 0 then
                 (case Min_pq leftColumnIndex of
                    None \<Rightarrow> None
                  | Some mn \<Rightarrow>
                      (case compare right mn of
                         None \<Rightarrow> None
                       | Some c2 \<Rightarrow> Some (c2 \<ge> 0)))
               else Some False))"

definition endpointTest ::
  "Value option \<Rightarrow> Value \<Rightarrow> (int \<Rightarrow> bool) \<Rightarrow> (bool \<times> error option) option" where
  "endpointTest endpoint right test =
     (case endpoint of
        None \<Rightarrow> None
      | Some e \<Rightarrow>
          if IsNull e then Some (True, None)
          else (case compare e right of
                  None \<Rightarrow> None
                | Some c \<Rightarrow> Some (test c, None)))"

definition BinaryScalarOperation ::
  "ColumnChunk \<Rightarrow> Value \<Rightarrow> Op \<Rightarrow> (bool \<times> error option) option" where
  "BinaryScalarOperation left right operator =
     (case ColumnIndex left of
        Inl err \<Rightarrow> Some (True, Some err)
      | Inr leftColumnIndex \<Rightarrow>
          (let numNulls = NullCount leftColumnIndex;
               fullOfNulls = (numNulls = NumValues left)
           in if operator = OpEq then
                (if IsNull right then Some (0 <s numNulls, None)
                 else if fullOfNulls then Some (False, None)
                 else (case BloomFilter left of
                         None \<Rightarrow> map_option (\<lambda>b. (b, None)) (eqMinMax leftColumnIndex right)
                       | Some check \<Rightarrow>
                           (case check right of
                              Inl err \<Rightarrow> Some (True, Some err)
                            | Inr ok \<Rightarrow> if \<not> ok then Some (False, None) else Some (True, None))))
              else if IsNull right then Some (True, None)
              else if numNulls = NumValues left then Some (False, None)
              else (case operator of
                      OpLtEq \<Rightarrow> endpointTest (Min_pq leftColumnIndex) right (\<lambda>c. c \<le> 0)
                    | OpLt \<Rightarrow> endpointTest (Min_pq leftColumnIndex) right (\<lambda>c. c < 0)
                    | OpGt \<Rightarrow> endpointTest (Max_pq leftColumnIndex) right (\<lambda>c. c > 0)
                    | OpGtEq \<Rightarrow> endpointTest (Max_pq leftColumnIndex) right (\<lambda>c. c \<ge> 0)
                    | _ \<Rightarrow> Some (True, None))))"

section \<open>The file system and the Go library, as the level sees them\<close>

subsection \<open>Integers\<close>

text \<open>
  Go's \<open>int64\<close> as an \<open>int\<close> with the wrap-around written out: \<open>wrap64 x\<close> is the
  two's complement value of the low 64 bits of \<open>x\<close>.
\<close>

definition wrap64 :: "int \<Rightarrow> int" where
  "wrap64 x = (x + 2 ^ 63) mod 2 ^ 64 - 2 ^ 63"

text \<open>\<open>binary.LittleEndian.PutUint64\<close> and \<open>binary.LittleEndian.Uint64\<close>.\<close>

definition PutUint64 :: "64 word \<Rightarrow> byte list" where
  "PutUint64 v =
     [ucast v, ucast (drop_bit 8 v), ucast (drop_bit 16 v), ucast (drop_bit 24 v),
      ucast (drop_bit 32 v), ucast (drop_bit 40 v), ucast (drop_bit 48 v), ucast (drop_bit 56 v)]"

definition Uint64 :: "byte list \<Rightarrow> 64 word" where
  "Uint64 b =
     (ucast (b ! 0) OR push_bit 8 (ucast (b ! 1)) OR push_bit 16 (ucast (b ! 2))
      OR push_bit 24 (ucast (b ! 3)) OR push_bit 32 (ucast (b ! 4)) OR push_bit 40 (ucast (b ! 5))
      OR push_bit 48 (ucast (b ! 6)) OR push_bit 56 (ucast (b ! 7)))"

subsection \<open>Strings\<close>

text \<open>
  \<open>fmt.Sprintf("%v", n)\<close> for an unsigned integer: its decimal digits.
  \<open>fmt.Sprintf("%020d%s", n, ext)\<close>: the decimal digits padded with zeros on the
  left to 20 characters, then the extension.
\<close>

definition digit_char :: "int \<Rightarrow> char" where
  "digit_char d = char_of (48 + d)"

function decimal :: "int \<Rightarrow> string" where
  "decimal n = (if n < 10 then [digit_char n] else decimal (n div 10) @ [digit_char (n mod 10)])"
  by pat_completeness auto
termination
  by (relation "measure nat") auto

declare decimal.simps [simp del]

definition Sprintf_v :: "64 word \<Rightarrow> string" where
  "Sprintf_v t = decimal (uint t)"

definition Sprintf_020d_s :: "nat \<Rightarrow> string \<Rightarrow> string" where
  "Sprintf_020d_s n ext =
     (let ds = decimal (int n) in replicate (20 - length ds) (CHR ''0'') @ ds @ ext)"

text \<open>
  \<open>strconv.Atoi\<close>: an optional sign, then one or more decimal digits and nothing else;
  a value outside \<open>int\<close> (64 bits) is a range error. Both errors are \<open>None\<close>.
\<close>

definition is_digit :: "char \<Rightarrow> bool" where
  "is_digit ch = (48 \<le> (of_char ch :: nat) \<and> (of_char ch :: nat) \<le> 57)"

fun digits_value :: "int \<Rightarrow> string \<Rightarrow> int" where
  "digits_value n [] = n"
| "digits_value n (ch # s) = digits_value (n * 10 + (int (of_char ch) - 48)) s"

definition Atoi :: "string \<Rightarrow> int option" where
  "Atoi s =
     (case s of
        [] \<Rightarrow> None
      | ch # rest \<Rightarrow>
          (let neg = (ch = CHR ''-'');
               ds = (if ch = CHR ''-'' \<or> ch = CHR ''+'' then rest else s)
           in if ds = [] \<or> \<not> list_all is_digit ds then None
              else (let un = digits_value 0 ds; n = (if neg then - un else un)
                    in if - (2 ^ 63) \<le> n \<and> n < 2 ^ 63 then Some n else None)))"

text \<open>
  \<open>filepath.Ext\<close>: the suffix from the last dot of the last path element, or the empty
  string. \<open>filepath.Base\<close> and \<open>filepath.Dir\<close> split a path at its last separator, and
  \<open>filepath.Join\<close> puts a separator between its two arguments; the paths of the model
  are clean (no trailing separator, no empty element).
\<close>

fun Ext_scan :: "string \<Rightarrow> string \<Rightarrow> string" where
  "Ext_scan [] acc = []"
| "Ext_scan (ch # r) acc =
     (if ch = CHR ''/'' then []
      else if ch = CHR ''.'' then ch # acc
      else Ext_scan r (ch # acc))"

definition Ext :: "path \<Rightarrow> string" where
  "Ext p = Ext_scan (rev p) []"

definition Base :: "path \<Rightarrow> string" where
  "Base p = rev (takeWhile (\<lambda>ch. ch \<noteq> CHR ''/'') (rev p))"

definition Dir :: "path \<Rightarrow> path" where
  "Dir p = rev (drop 1 (dropWhile (\<lambda>ch. ch \<noteq> CHR ''/'') (rev p)))"

definition Join :: "path \<Rightarrow> string \<Rightarrow> path" where
  "Join d name = d @ ''/'' @ name"

subsection \<open>The file system\<close>

text \<open>
  The state outside the process. A directory entry names an inode, and an inode holds the
  bytes of a file: a hard link is a second entry for the same inode. \<open>faulty\<close> is the
  fault table: a system call named there for a path fails with an error of the operating
  system and has no effect. The model is of flat level and snapshot directories (files
  only) whose own names do not end in the index extension.
\<close>

record world =
  dirs :: "path list"
  names :: "(path \<times> nat) list"
  inodes :: "byte list list"
  faulty :: "sysop \<Rightarrow> path \<Rightarrow> bool"

text \<open>An open file (\<open>*os.File\<close>): its name, its inode, the position of the next
  \<open>Write\<close>, and whether it was opened for writing.\<close>

record osfile =
  Name :: path
  ino :: nat
  pos :: nat
  writable :: bool

definition content :: "world \<Rightarrow> nat \<Rightarrow> byte list" where
  "content w i = (if i < length (inodes w) then inodes w ! i else [])"

definition MkdirAll :: "world \<Rightarrow> path \<Rightarrow> error option \<times> world" where
  "MkdirAll w d =
     (if faulty w OpMkdirAll d then (Some (ErrSys OpMkdirAll d), w)
      else (None, w\<lparr>dirs := List.insert d (dirs w)\<rparr>))"

text \<open>\<open>os.RemoveAll(d)\<close> removes the directory and its entries.\<close>

definition RemoveAll :: "world \<Rightarrow> path \<Rightarrow> error option \<times> world" where
  "RemoveAll w d =
     (if faulty w OpRemoveAll d then (Some (ErrSys OpRemoveAll d), w)
      else (None, w\<lparr>dirs := removeAll d (dirs w),
                     names := filter (\<lambda>(p, i). Dir p \<noteq> d) (names w)\<rparr>))"

text \<open>\<open>os.OpenFile(path, O_CREATE|O_RDWR, perm)\<close>: opens the file for reading and
  writing at position 0, creating it empty when there is no such entry; an existing file
  keeps its bytes.\<close>

definition OpenFile :: "world \<Rightarrow> path \<Rightarrow> error + (osfile \<times> world)" where
  "OpenFile w p =
     (if faulty w OpOpenFile p \<or> Dir p \<notin> set (dirs w) then Inl (ErrSys OpOpenFile p)
      else (case map_of (names w) p of
              Some i \<Rightarrow> Inr (\<lparr>Name = p, ino = i, pos = 0, writable = True\<rparr>, w)
            | None \<Rightarrow>
                Inr (\<lparr>Name = p, ino = length (inodes w), pos = 0, writable = True\<rparr>,
                     w\<lparr>names := names w @ [(p, length (inodes w))],
                       inodes := inodes w @ [[]]\<rparr>)))"

text \<open>\<open>os.Open(path)\<close>: read only.\<close>

definition Open :: "world \<Rightarrow> path \<Rightarrow> error + osfile" where
  "Open w p =
     (if faulty w OpOpen p then Inl (ErrSys OpOpen p)
      else (case map_of (names w) p of
              Some i \<Rightarrow> Inr \<lparr>Name = p, ino = i, pos = 0, writable = False\<rparr>
            | None \<Rightarrow> Inl (ErrSys OpOpen p)))"

text \<open>\<open>file.Write(b)\<close> writes at the position of the file, over the bytes that are
  there and beyond the end, and advances the position; it returns the number of bytes
  written and the error. A failed write writes nothing.\<close>

definition write_at :: "byte list \<Rightarrow> nat \<Rightarrow> byte list \<Rightarrow> byte list" where
  "write_at old p b = take p old @ replicate (p - length old) 0 @ b @ drop (p + length b) old"

definition Write :: "world \<Rightarrow> osfile \<Rightarrow> byte list \<Rightarrow> (nat \<times> error option) \<times> osfile \<times> world" where
  "Write w file b =
     (if faulty w OpWrite (Name file) \<or> \<not> writable file \<or> \<not> ino file < length (inodes w)
      then ((0, Some (ErrSys OpWrite (Name file))), file, w)
      else ((length b, None), file\<lparr>pos := pos file + length b\<rparr>,
            w\<lparr>inodes := (inodes w)[ino file := write_at (content w (ino file)) (pos file) b]\<rparr>))"

text \<open>\<open>file.ReadAt(b, off)\<close> for a buffer of \<open>n\<close> bytes: the bytes read, and the error
  when fewer than \<open>n\<close> were read.\<close>

definition ReadAt :: "world \<Rightarrow> osfile \<Rightarrow> nat \<Rightarrow> int \<Rightarrow> byte list \<times> error option" where
  "ReadAt w file n off =
     (if faulty w OpReadAt (Name file) \<or> off < 0 then ([], Some (ErrSys OpReadAt (Name file)))
      else (let b = take n (drop (nat off) (content w (ino file)))
            in (b, if length b < n then Some (ErrSys OpReadAt (Name file)) else None)))"

definition Sync_file :: "world \<Rightarrow> osfile \<Rightarrow> error option" where
  "Sync_file w file = (if faulty w OpSync (Name file) then Some (ErrSys OpSync (Name file)) else None)"

definition Close :: "world \<Rightarrow> osfile \<Rightarrow> error option" where
  "Close w file = (if faulty w OpClose (Name file) then Some (ErrSys OpClose (Name file)) else None)"

text \<open>\<open>os.Link(old, new)\<close>: a new entry for the inode of \<open>old\<close>; it fails when \<open>old\<close>
  is missing or \<open>new\<close> exists.\<close>

definition Link :: "world \<Rightarrow> path \<Rightarrow> path \<Rightarrow> error option \<times> world" where
  "Link w old new =
     (if faulty w OpLink new \<or> Dir new \<notin> set (dirs w) \<or> map_of (names w) new \<noteq> None
      then (Some (ErrSys OpLink new), w)
      else (case map_of (names w) old of
              None \<Rightarrow> (Some (ErrSys OpLink new), w)
            | Some i \<Rightarrow> (None, w\<lparr>names := names w @ [(new, i)]\<rparr>)))"

text \<open>\<open>d.Info()\<close> of a directory entry, read for its size.\<close>

definition Info_Size :: "world \<Rightarrow> path \<Rightarrow> error + int" where
  "Info_Size w p =
     (if faulty w OpInfo p then Inl (ErrSys OpInfo p)
      else (case map_of (names w) p of
              None \<Rightarrow> Inl (ErrSys OpInfo p)
            | Some i \<Rightarrow> Inr (int (length (content w i)))))"

text \<open>The entries of a directory in the order \<open>filepath.WalkDir\<close> visits them:
  lexically by name.\<close>

definition ReadDir :: "world \<Rightarrow> path \<Rightarrow> path list" where
  "ReadDir w d = sort (remdups (filter (\<lambda>p. Dir p = d) (map fst (names w))))"

section \<open>Parts and the codec\<close>

text \<open>
  Modelled from the spec: the package \<open>parts\<close> is not among the sources. A part holds its
  transaction identifier, its codec buffer and, from its options, its release hooks in the
  order of registration; a part as constructed holds one reference, and \<open>Release\<close> of the
  last reference fires the hooks. \<open>LevelDone\<close> is the hook \<open>f.parts.Done\<close> of the file
  level, \<open>CallerHook\<close> a hook the caller passed.
\<close>

datatype PartOption = LevelDone | CallerHook nat

record 'buf Part =
  TX :: "64 word"
  Buf :: "'buf"
  Hooks :: "PartOption list"

definition NewParquetPart :: "64 word \<Rightarrow> 'buf \<Rightarrow> PartOption list \<Rightarrow> 'buf Part" where
  "NewParquetPart t b options = \<lparr>TX = t, Buf = b, Hooks = options\<rparr>"

text \<open>
  The columnar library and \<open>dynparquet\<close>, taken as parameters: \<open>parquet.OpenFile\<close> on
  the bytes of a section, \<open>dynparquet.NewSerializedBuffer\<close> on the file it returns,
  \<open>buf.ParquetFile().Lookup\<close> of a metadata key, and \<open>dynparquet.ReaderFromBytes\<close>.
\<close>

record ('pf, 'buf) codec =
  pqOpenFile :: "byte list \<Rightarrow> error + 'pf"
  NewSerializedBuffer :: "'pf \<Rightarrow> error + 'buf"
  Lookup :: "'buf \<Rightarrow> string \<Rightarrow> string option"
  ReaderFromBytes :: "byte list \<Rightarrow> error + 'buf"

text \<open>
  A \<open>Compaction\<close> function writes the merged row group to the writer it is given and
  returns the logical size of its inputs, or an error. The model takes the bytes it writes
  and its result; the bytes reach the writer in one \<open>Write\<close>, and a \<open>Write\<close> that fails
  makes the function return that error.
\<close>

datatype WriterOption = KeyValueMetadata string string

type_synonym 'buf Compaction = "'buf Part list \<Rightarrow> WriterOption list \<Rightarrow> byte list \<times> (error + int)"

definition IndexFileExtension :: string where
  "IndexFileExtension = ''.idx''"

definition ParquetCompactionTXKey :: string where
  "ParquetCompactionTXKey = ''compaction_tx''"

section \<open>FileCompaction\<close>

datatype loglevel = Warn | Error

type_synonym logline = "loglevel \<times> string"

text \<open>The struct: \<open>parts\<close> is the counter of the wait group, \<open>logger\<close> the lines logged
  so far.\<close>

record 'buf FileCompaction =
  dir :: path
  compact :: "'buf Compaction"
  maxSize :: int
  indexFiles :: "osfile list"
  offset :: int
  parts :: int
  logger :: "logline list"

definition NewFileCompaction ::
  "world \<Rightarrow> path \<Rightarrow> int \<Rightarrow> 'buf Compaction \<Rightarrow> logline list \<Rightarrow> (error + 'buf FileCompaction) \<times> world" where
  "NewFileCompaction w d m c l =
     (let f = \<lparr>dir = d, compact = c, maxSize = m, indexFiles = [], offset = 0, parts = 0,
               logger = l\<rparr>
      in case MkdirAll w d of
           (Some err, w') \<Rightarrow> (Inl err, w')
         | (None, w') \<Rightarrow> (Inr f, w'))"

definition createIndexFile ::
  "'buf FileCompaction \<Rightarrow> world \<Rightarrow> nat \<Rightarrow> (error + osfile) \<times> 'buf FileCompaction \<times> world" where
  "createIndexFile f w n =
     (case OpenFile w (Join (dir f) (Sprintf_020d_s n IndexFileExtension)) of
        Inl err \<Rightarrow> (Inl err, f, w)
      | Inr (file, w') \<Rightarrow> (Inr file, f\<lparr>offset := 0, indexFiles := indexFiles f @ [file]\<rparr>, w'))"

definition openIndexFile ::
  "'buf FileCompaction \<Rightarrow> world \<Rightarrow> path \<Rightarrow> (error + osfile) \<times> 'buf FileCompaction" where
  "openIndexFile f w p =
     (case Open w p of
        Inl err \<Rightarrow> (Inl err, f)
      | Inr file \<Rightarrow> (Inr file, f\<lparr>indexFiles := indexFiles f @ [file]\<rparr>))"

text \<open>\<open>file()\<close> of the source (\<open>file\<close> is a keyword here) indexes the list at
  \<open>len - 1\<close>: on an empty list that is a panic, \<open>None\<close> here.\<close>

definition file_active :: "'buf FileCompaction \<Rightarrow> osfile option" where
  "file_active f = (if indexFiles f = [] then None else Some (last (indexFiles f)))"

text \<open>The active file is held by pointer: a write through it moves the position of the
  last file of the list.\<close>

definition set_file :: "'buf FileCompaction \<Rightarrow> osfile \<Rightarrow> 'buf FileCompaction" where
  "set_file f h = f\<lparr>indexFiles := butlast (indexFiles f) @ [h]\<rparr>"

text \<open>
  \<open>parquet.OpenFile(io.NewSectionReader(file, off, n), n)\<close>: the library reads the
  section through \<open>ReadAt\<close>. A section that starts before the file, has a negative
  length or ends beyond the file cannot be read, and the library returns an error; on a
  section inside the file it decodes the bytes of the section.
\<close>

definition openSection ::
  "('pf, 'buf) codec \<Rightarrow> world \<Rightarrow> osfile \<Rightarrow> int \<Rightarrow> int \<Rightarrow> error + 'pf" where
  "openSection c w h off n =
     (if faulty w OpReadAt (Name h) \<or> off < 0 \<or> n < 0
         \<or> int (length (content w (ino h))) < off + n
      then Inl (ErrSys OpReadAt (Name h))
      else pqOpenFile c (take (nat n) (drop (nat off) (content w (ino h)))))"

text \<open>
  \<open>Compact\<close>. The result is \<open>None\<close> when the call panics; otherwise Go's four results,
  the level and the file system after the call.
\<close>

type_synonym 'buf CompactResult = "'buf Part list \<times> int \<times> int \<times> error option"

definition Compact ::
  "('pf, 'buf) codec \<Rightarrow> 'buf FileCompaction \<Rightarrow> world \<Rightarrow> 'buf Part list \<Rightarrow> PartOption list
     \<Rightarrow> ('buf CompactResult \<times> 'buf FileCompaction \<times> world) option" where
  "Compact c f w toCompact options =
     (if length toCompact = 0 then Some (([], 0, 0, Some ErrNoParts), f, w)
      else (case file_active f of
         None \<Rightarrow> None
       | Some h \<Rightarrow>
          (let (payload, res) =
                 compact f toCompact
                   [KeyValueMetadata ParquetCompactionTXKey (Sprintf_v (TX (hd toCompact)))];
               ((n, werr), h1, w1) = Write w h payload;
               accountant_n = wrap64 (int n);
               f1 = set_file f h1
           in case (case werr of Some e \<Rightarrow> Inl e | None \<Rightarrow> res) of
                Inl err \<Rightarrow> Some (([], 0, 0, Some err), f1, w1)
              | Inr preCompactionSize \<Rightarrow>
                 (let prevOffset = offset f1;
                      sizeBuf = PutUint64 (word_of_int accountant_n);
                      ((n2, werr2), h2, w2) = Write w1 h1 sizeBuf;
                      f2 = set_file f1 h2
                  in if n2 \<noteq> 8 then Some (([], 0, 0, Some (ErrWriteSize werr2)), f2, w2)
                     else
                      (let f3 = f2\<lparr>offset := wrap64 (offset f2 + accountant_n + 8)\<rparr>
                       in case Sync_file w2 h2 of
                            Some err \<Rightarrow> Some (([], 0, 0, Some (ErrSyncFile err)), f3, w2)
                          | None \<Rightarrow>
                             (case openSection c w2 h2 prevOffset accountant_n of
                                Inl err \<Rightarrow> Some (([], 0, 0, Some (ErrOpenAfterCompaction err)), f3, w2)
                              | Inr pf \<Rightarrow>
                                 (case NewSerializedBuffer c pf of
                                    Inl err \<Rightarrow> Some (([], 0, 0, Some err), f3, w2)
                                  | Inr buf \<Rightarrow>
                                     Some (([NewParquetPart (TX (hd toCompact)) buf
                                               (options @ [LevelDone])],
                                            preCompactionSize, accountant_n, None),
                                           f3\<lparr>parts := parts f3 + 1\<rparr>, w2))))))))"

text \<open>
  \<open>Snapshot\<close>. The loop over the files returns from \<open>Snapshot\<close> (\<open>Some\<close> of the
  error returned, \<open>None\<close> for \<open>nil\<close>) or runs to its end (\<open>None\<close>). \<open>f.Sync()\<close> syncs
  \<open>f.file()\<close>, which at the last index is the file at hand.
\<close>

fun Snapshot_loop ::
  "'buf FileCompaction \<Rightarrow> world \<Rightarrow> path \<Rightarrow> nat \<Rightarrow> osfile list \<Rightarrow> error option option \<times> world" where
  "Snapshot_loop f w d i [] = (None, w)"
| "Snapshot_loop f w d i (file # rest) =
     (let early =
            (if int i = int (length (indexFiles f)) - 1 then
               (if offset f > 0 then
                  (case Sync_file w file of Some err \<Rightarrow> Some (Some err) | None \<Rightarrow> None)
                else Some None)
             else None)
      in case early of
           Some r \<Rightarrow> (Some r, w)
         | None \<Rightarrow>
            (case Link w (Name file) (Join d (Base (Name file))) of
               (Some err, w') \<Rightarrow> (Some (Some err), w')
             | (None, w') \<Rightarrow> Snapshot_loop f w' d (Suc i) rest))"

definition Snapshot ::
  "'buf FileCompaction \<Rightarrow> world \<Rightarrow> path \<Rightarrow> error option \<times> 'buf FileCompaction \<times> world" where
  "Snapshot f w d =
     (case MkdirAll w d of
        (Some err, w') \<Rightarrow> (Some err, f, w')
      | (None, w1) \<Rightarrow>
         (case Snapshot_loop f w1 d 0 (indexFiles f) of
            (Some r, w2) \<Rightarrow> (r, f, w2)
          | (None, w2) \<Rightarrow>
             (case createIndexFile f w2 (length (indexFiles f)) of
                (Inl err, f', w3) \<Rightarrow> (Some err, f', w3)
              | (Inr file, f', w3) \<Rightarrow> (None, f', w3))))"

text \<open>
  \<open>recover\<close>. First the loop over the records of one file, from its end to offset 0; it
  returns the error, if any, the parts recovered from the file so far, and the level.
\<close>

definition txOfMetadata :: "string option \<Rightarrow> int \<times> logline list" where
  "txOfMetadata found =
     (case found of
        None \<Rightarrow> (0, [(Warn, ''failed to find compaction_tx metadata'')])
      | Some txstr \<Rightarrow>
         (case Atoi txstr of
            None \<Rightarrow> (0, [(Warn, ''failed to parse compaction_tx metadata'')])
          | Some t \<Rightarrow> (t, [])))"

function recover_records ::
  "('pf, 'buf) codec \<Rightarrow> world \<Rightarrow> PartOption list \<Rightarrow> osfile \<Rightarrow> int \<Rightarrow> 'buf Part list
     \<Rightarrow> 'buf FileCompaction \<Rightarrow> error option \<times> 'buf Part list \<times> 'buf FileCompaction" where
  "recover_records c w options file off fileParts f =
     (if off > 0 then
        (let off1 = wrap64 (off - 8);
             (sizeBuf, rerr) = ReadAt w file 8 off1
         in if length sizeBuf \<noteq> 8 then (Some (ErrReadSize rerr), fileParts, f)
            else
             (let parquetSize = sint (Uint64 sizeBuf);
                  off2 = wrap64 (off1 - parquetSize)
              in case openSection c w file off2 parquetSize of
                   Inl err \<Rightarrow> (Some err, fileParts, f)
                 | Inr pf \<Rightarrow>
                    (case NewSerializedBuffer c pf of
                       Inl err \<Rightarrow> (Some err, fileParts, f)
                     | Inr buf \<Rightarrow>
                        (let (t, logs) = txOfMetadata (Lookup c buf ParquetCompactionTXKey)
                         in recover_records c w options file off2
                              (fileParts @ [NewParquetPart (word_of_int t) buf (options @ [LevelDone])])
                              (f\<lparr>parts := parts f + 1, logger := logger f @ logs\<rparr>)))))
      else (None, fileParts, f))"
  by pat_completeness auto

text \<open>
  Each round of the loop moves the offset down: the eight bytes of a trailer were read at a
  non-negative offset, and a section that opened has a non-negative start and length.
\<close>

termination recover_records
proof (relation "measure (\<lambda>(c, w, options, fl, off, fileParts, f). nat off)")
  show "wf (measure (\<lambda>(c, w, options, fl, off, fileParts, f). nat off))"
    by simp
next
  fix c :: "('pf, 'buf) codec" and w options fl off and fileParts :: "'buf Part list"
    and f :: "'buf FileCompaction" and x xa xb y xaa xab b ba xc xd ya
  assume pos: "0 < off" and x: "x = wrap64 (off - 8)" and xa: "xa = ReadAt w fl 8 x"
    and rd: "(xb, y) = xa" and len: "\<not> length xb \<noteq> 8" and xaa: "xaa = sint (Uint64 xb)"
    and xab: "xab = wrap64 (x - xaa)" and sec: "openSection c w fl xab xaa = Inr b"
  have le: "wrap64 z \<le> z" if "- (2 ^ 63) \<le> z" for z
  proof -
    have "(z + 2 ^ 63) mod 2 ^ 64 \<le> z + 2 ^ 63"
      by (rule zmod_le_nonneg_dividend) (use that in simp)
    then show ?thesis unfolding wrap64_def by simp
  qed
  have x0: "0 \<le> x"
    using xa rd len by (auto simp: ReadAt_def split: if_splits)
  have xle: "x \<le> off - 8"
    unfolding x using pos by (intro le) simp
  have n0: "0 \<le> xaa"
    using sec by (auto simp: openSection_def split: if_splits)
  have "xaa < 2 ^ 63"
    unfolding xaa using sint_lt [of "Uint64 xb"] by simp
  with x0 have "xab \<le> x - xaa"
    unfolding xab by (intro le) simp
  with n0 xle pos
  show "((c, w, options, fl, xab,
          fileParts @ [NewParquetPart (word_of_int xd) ba (options @ [LevelDone])],
          f\<lparr>parts := parts f + 1, logger := logger f @ ya\<rparr>),
         c, w, options, fl, off, fileParts, f)
        \<in> measure (\<lambda>(c, w, options, fl, off, fileParts, f). nat off)"
    by simp
qed

text \<open>
  Modelled from the spec: \<open>part.Release()\<close> of a part recovered a moment ago drops its
  only reference, so its hooks fire; the hook of the level decrements the counter of the
  wait group.
\<close>

definition Release :: "'buf FileCompaction \<Rightarrow> 'buf Part \<Rightarrow> 'buf FileCompaction" where
  "Release f part = f\<lparr>parts := parts f - int (length (filter (\<lambda>h. h = LevelDone) (Hooks part)))\<rparr>"

text \<open>
  The function \<open>recover\<close> passes to \<open>filepath.WalkDir\<close>, for one entry of the directory.
  It returns the error it returns to the walk, the level, and the parts recovered so far.
  On a failed file it releases the parts of that file, closes the file it opened (the
  last of the list) and drops it from the list.
\<close>

definition recover_visit ::
  "('pf, 'buf) codec \<Rightarrow> world \<Rightarrow> PartOption list \<Rightarrow> path \<Rightarrow> 'buf FileCompaction \<Rightarrow> 'buf Part list
     \<Rightarrow> error option \<times> 'buf FileCompaction \<times> 'buf Part list" where
  "recover_visit c w options p f recovered =
     (if Ext p \<noteq> IndexFileExtension then (None, f, recovered)
      else (case Info_Size w p of
         Inl err \<Rightarrow> (Some (ErrFileInfo err), f, recovered)
       | Inr fsize \<Rightarrow>
          if fsize = 0 then (None, f, recovered)
          else (case openIndexFile f w p of
             (Inl err, f1) \<Rightarrow> (Some (ErrOpenFile err), f1, recovered)
           | (Inr fl, f1) \<Rightarrow>
              (case recover_records c w options fl fsize [] f1 of
                 (Some err, fileParts, f2) \<Rightarrow>
                   (let f3 = foldl Release f2 fileParts;
                        f4 = (case Close w fl of
                                Some cerr \<Rightarrow>
                                  f3\<lparr>logger := logger f3 @
                                    [(Error, ''failed to close level file after failed recovery'')]\<rparr>
                              | None \<Rightarrow> f3);
                        f5 = f4\<lparr>indexFiles := butlast (indexFiles f4)\<rparr>
                    in (Some err, f5, recovered))
               | (None, fileParts, f2) \<Rightarrow> (None, f2, recovered @ fileParts)))))"

text \<open>\<open>filepath.WalkDir\<close> over the entries: it stops at the first entry whose visit
  returns an error and returns that error.\<close>

fun recover_walk ::
  "('pf, 'buf) codec \<Rightarrow> world \<Rightarrow> PartOption list \<Rightarrow> path list \<Rightarrow> 'buf FileCompaction \<Rightarrow> 'buf Part list
     \<Rightarrow> error option \<times> 'buf FileCompaction \<times> 'buf Part list" where
  "recover_walk c w options [] f recovered = (None, f, recovered)"
| "recover_walk c w options (p # ps) f recovered =
     (case recover_visit c w options p f recovered of
        (Some err, f', recovered') \<Rightarrow> (Some err, f', recovered')
      | (None, f', recovered') \<Rightarrow> recover_walk c w options ps f' recovered')"

text \<open>
  \<open>recover\<close>: the walk of the level directory (which fails at once when the directory
  cannot be read), then the deferred creation of the new active file, whose failure is
  logged. It returns Go's two results, the level and the file system.
\<close>

definition recover ::
  "('pf, 'buf) codec \<Rightarrow> 'buf FileCompaction \<Rightarrow> world \<Rightarrow> PartOption list
     \<Rightarrow> ('buf Part list \<times> error option) \<times> 'buf FileCompaction \<times> world" where
  "recover c f w options =
     (let (err, f1, recovered) =
            (if faulty w OpLstat (dir f) \<or> dir f \<notin> set (dirs w)
             then (Some (ErrSys OpLstat (dir f)), f, [])
             else if faulty w OpReadDir (dir f) then (Some (ErrSys OpReadDir (dir f)), f, [])
             else recover_walk c w options (ReadDir w (dir f)) f []);
          (created, f2, w2) = createIndexFile f1 w (length (indexFiles f1));
          f3 = (case created of
                  Inl cerr \<Rightarrow> f2\<lparr>logger := logger f2 @ [(Error, ''failed to create new level file'')]\<rparr>
                | Inr fl \<Rightarrow> f2)
      in ((case err of Some e \<Rightarrow> ([], Some e) | None \<Rightarrow> (recovered, None)), f3, w2))"

text \<open>
  \<open>Reset\<close>. \<open>f.parts.Wait()\<close> returns when the counter of the wait group is zero; with
  no other thread to release a part, a call with live parts does not return (\<open>None\<close>).
  Every error is logged and none is returned.
\<close>

definition log_if :: "'e option \<Rightarrow> logline \<Rightarrow> 'buf FileCompaction \<Rightarrow> 'buf FileCompaction" where
  "log_if err line f = (case err of Some e \<Rightarrow> f\<lparr>logger := logger f @ [line]\<rparr> | None \<Rightarrow> f)"

definition Reset :: "'buf FileCompaction \<Rightarrow> world \<Rightarrow> ('buf FileCompaction \<times> world) option" where
  "Reset f w =
     (if parts f \<noteq> 0 then None
      else
       (let f1 = foldl (\<lambda>g fl. log_if (Close w fl) (Error, ''failed to close level file'') g)
                   f (indexFiles f);
            (rerr, w1) = RemoveAll w (dir f);
            f2 = log_if rerr (Error, ''failed to remove level directory'') f1;
            (merr, w2) = MkdirAll w1 (dir f);
            f3 = log_if merr (Error, ''failed to create level directory'') f2;
            f4 = f3\<lparr>indexFiles := []\<rparr>;
            (created, f5, w3) = createIndexFile f4 w2 (length (indexFiles f4));
            f6 = (case created of
                    Inl cerr \<Rightarrow> f5\<lparr>logger := logger f5 @ [(Error, ''failed to create new level file'')]\<rparr>
                  | Inr fl \<Rightarrow> f5)
        in Some (f6, w3)))"

section \<open>The in-memory level\<close>

record 'buf inMemoryLevel =
  compact_mem :: "'buf Compaction"
  maxSize_mem :: int

text \<open>\<open>Compact\<close> of the in-memory level writes to a byte buffer of its own, which never
  fails, and leaves the level as it was: it returns Go's four results.\<close>

definition Compact_mem ::
  "('pf, 'buf) codec \<Rightarrow> 'buf inMemoryLevel \<Rightarrow> 'buf Part list \<Rightarrow> PartOption list \<Rightarrow> 'buf CompactResult" where
  "Compact_mem c l toCompact options =
     (if length toCompact = 0 then ([], 0, 0, Some ErrNoParts)
      else (let (b, res) = compact_mem l toCompact []
            in case res of
                 Inl err \<Rightarrow> ([], 0, 0, Some err)
               | Inr preCompactionSize \<Rightarrow>
                  (case ReaderFromBytes c b of
                     Inl err \<Rightarrow> ([], 0, 0, Some err)
                   | Inr buf \<Rightarrow>
                      (let postCompactionSize = wrap64 (int (length b))
                       in ([NewParquetPart (TX (hd toCompact)) buf options],
                           preCompactionSize, postCompactionSize, None)))))"

section \<open>A small codec, to run the model on concrete inputs\<close>

text \<open>
  The codec and the compaction function are parameters of the level. To evaluate the
  level on concrete inputs they are instantiated with the smallest ones that keep the
  metadata: the payload is one flag byte (1 when a \<open>compaction_tx\<close> pair was passed
  to the writer, 0 otherwise) followed by the bytes of the value; opening a payload reads
  the value back and fails on an empty payload. The logical size of the inputs is their
  number.
\<close>

definition demo_compact :: "(string option) Compaction" where
  "demo_compact toCompact wopts =
     (case wopts of
        KeyValueMetadata k v # rest \<Rightarrow> (1 # map (\<lambda>ch. of_nat (of_char ch)) v, Inr (int (length toCompact)))
      | [] \<Rightarrow> ([0], Inr (int (length toCompact))))"

definition demo_open :: "byte list \<Rightarrow> error + string option" where
  "demo_open b =
     (case b of
        [] \<Rightarrow> Inl (ErrLib ''not a row group'')
      | flag # v \<Rightarrow> Inr (if flag = 1 then Some (map (\<lambda>x. char_of (unat x)) v) else None))"

definition demo_codec :: "(string option, string option) codec" where
  "demo_codec =
     \<lparr>pqOpenFile = demo_open,
      NewSerializedBuffer = Inr,
      Lookup = (\<lambda>buf k. if k = ParquetCompactionTXKey then buf else None),
      ReaderFromBytes = demo_open\<rparr>"

definition no_faults :: "sysop \<Rightarrow> path \<Rightarrow> bool" where
  "no_faults operation p = False"

definition empty_world :: world where
  "empty_world = \<lparr>dirs = [], names = [], inodes = [], faulty = no_faults\<rparr>"

definition demo_part :: "64 word \<Rightarrow> (string option) Part" where
  "demo_part t = NewParquetPart t None []"

section \<open>Concrete inputs\<close>

subsection \<open>Column chunks\<close>

text \<open>A chunk of one page of four nulls; a chunk of one page with the value 5 and three
  nulls, whose bloom filter answers no; and a chunk of three pages whose middle page holds
  nulls only.\<close>

definition chunk_all_null :: ColumnChunk where
  "chunk_all_null =
     \<lparr>ColumnIndex = Inr [\<lparr>MinValue = NullValue, MaxValue = NullValue, NullCountPage = 4\<rparr>],
      NumValues = 4, BloomFilter = None\<rparr>"

definition chunk_one_value :: ColumnChunk where
  "chunk_one_value =
     \<lparr>ColumnIndex = Inr [\<lparr>MinValue = Int64Value 5, MaxValue = Int64Value 5, NullCountPage = 3\<rparr>],
      NumValues = 4, BloomFilter = Some (\<lambda>v. Inr False)\<rparr>"

definition index_null_page :: ColumnIndex where
  "index_null_page =
     [\<lparr>MinValue = Int64Value 5, MaxValue = Int64Value 6, NullCountPage = 0\<rparr>,
      \<lparr>MinValue = NullValue, MaxValue = NullValue, NullCountPage = 2\<rparr>,
      \<lparr>MinValue = Int64Value 7, MaxValue = Int64Value 9, NullCountPage = 0\<rparr>]"

definition chunk_null_page :: ColumnChunk where
  "chunk_null_page = \<lparr>ColumnIndex = Inr index_null_page, NumValues = 6, BloomFilter = None\<rparr>"

text \<open>
  The aggregate minimum and maximum in the words of the specification: the least and the
  greatest, by \<open>compare\<close>, of the per-page minima and maxima that are not null.
\<close>

fun spec_least :: "Value list \<Rightarrow> Value option" where
  "spec_least [] = None"
| "spec_least (v # vs) =
     (case spec_least vs of
        None \<Rightarrow> Some v
      | Some m \<Rightarrow> if compare v m = Some (- 1) then Some v else Some m)"

fun spec_greatest :: "Value list \<Rightarrow> Value option" where
  "spec_greatest [] = None"
| "spec_greatest (v # vs) =
     (case spec_greatest vs of
        None \<Rightarrow> Some v
      | Some m \<Rightarrow> if compare v m = Some 1 then Some v else Some m)"

definition spec_aggregateMin :: "ColumnIndex \<Rightarrow> Value option" where
  "spec_aggregateMin idx = spec_least (filter (\<lambda>v. \<not> IsNull v) (map MinValue idx))"

definition spec_aggregateMax :: "ColumnIndex \<Rightarrow> Value option" where
  "spec_aggregateMax idx = spec_greatest (filter (\<lambda>v. \<not> IsNull v) (map MaxValue idx))"

subsection \<open>The call of the compaction function\<close>

text \<open>The bytes and the result of the compaction function of the file level on the
  inputs of \<open>Compact\<close>, with the metadata pair \<open>Compact\<close> passes; and the same for the
  in-memory level, which passes none.\<close>

definition compact_call :: "'buf FileCompaction \<Rightarrow> 'buf Part list \<Rightarrow> byte list \<times> (error + int)" where
  "compact_call f toCompact =
     compact f toCompact [KeyValueMetadata ParquetCompactionTXKey (Sprintf_v (TX (hd toCompact)))]"

definition compact_call_mem :: "'buf inMemoryLevel \<Rightarrow> 'buf Part list \<Rightarrow> byte list \<times> (error + int)" where
  "compact_call_mem l toCompact = compact_mem l toCompact []"

section \<open>Properties\<close>

subsection \<open>Pruning\<close>

text \<open>
  C10. For a present column chunk and a right-hand value that is not null, the operator
  \<open>\<noteq>\<close> never looks at the minimum, the maximum or the bloom filter: when the column
  index cannot be read the call returns true with the error; otherwise it returns true
  exactly when the chunk is not all nulls (the null count differs from the number of
  values), and false when it is.
\<close>

theorem BinaryScalarOperation_NotEq:
  "\<not> IsNull right \<Longrightarrow>
   BinaryScalarOperation left right OpNotEq =
     (case ColumnIndex left of
        Inl err \<Rightarrow> Some (True, Some err)
      | Inr idx \<Rightarrow> Some (NullCount idx \<noteq> NumValues left, None))"
  by (simp add: BinaryScalarOperation_def Let_def split: sum.splits)

theorem BinaryScalarOperation_NotEq_witness:
  "\<not> IsNull (Int64Value 5)
   \<and> BinaryScalarOperation chunk_one_value (Int64Value 5) OpNotEq = Some (True, None)
   \<and> BinaryScalarOperation chunk_all_null (Int64Value 5) OpNotEq = Some (False, None)"
  using BinaryScalarOperation_NotEq [of "Int64Value 5" chunk_one_value]
    BinaryScalarOperation_NotEq [of "Int64Value 5" chunk_all_null]
  by (simp add: IsNull_def Int64Value_def chunk_one_value_def chunk_all_null_def NullCount_def)

text \<open>
  C8. The chunk \<open>chunk_null_page\<close> has no bloom filter and is not all nulls; its pages
  have the minima 5, null, 7 and the maxima 6, null, 9, so the least minimum that is not
  null is 5 and the greatest maximum is 9, and the value 5 lies between them. \<open>Min\<close>
  compares its running minimum 5 with the null minimum of the middle page, which the typed
  comparison reads as 0: the running minimum becomes null and then 7. The equality
  predicate with the value 5 returns false.
\<close>

theorem BinaryScalarOperation_Eq_null_page:
  "ColumnIndex chunk_null_page = Inr index_null_page
   \<and> BloomFilter chunk_null_page = None
   \<and> NullCount index_null_page \<noteq> NumValues chunk_null_page
   \<and> \<not> IsNull (Int64Value 5)
   \<and> spec_aggregateMin index_null_page = Some (Int64Value 5)
   \<and> spec_aggregateMax index_null_page = Some (Int64Value 9)
   \<and> compare (Int64Value 5) (Int64Value 5) = Some 0
   \<and> compare (Int64Value 5) (Int64Value 9) = Some (- 1)
   \<and> Min_pq index_null_page = Some (Int64Value 7)
   \<and> Max_pq index_null_page = Some (Int64Value 9)
   \<and> BinaryScalarOperation chunk_null_page (Int64Value 5) OpEq = Some (False, None)"
  by (simp add: BinaryScalarOperation_def chunk_null_page_def index_null_page_def
      Int64Value_def NullValue_def NullCount_def IsNull_def eqMinMax_def Max_pq_def Min_pq_def
      spec_aggregateMin_def spec_aggregateMax_def compare_def compareInt64_def cmp3_def)

subsection \<open>Compact\<close>

text \<open>
  C5. \<open>Compact\<close> with no inputs: the file level and the in-memory level both return
  the error \<open>no parts to compact\<close>, no parts and zero byte counts; the file level and
  the file system are as they were, and the in-memory level has no state to change.
\<close>

theorem Compact_empty_inputs:
  "Compact c f w [] options = Some (([], 0, 0, Some ErrNoParts), f, w)
   \<and> Compact_mem c l [] options = ([], 0, 0, Some ErrNoParts)"
  by (simp add: Compact_def Compact_mem_def)

end
